theory Spec2Isabelle
  imports Main
begin

section \<open>The SQL Server dialect of SQLAlchemy (dialects/mssql/base.py)\<close>

text \<open>
  A shallow embedding of the pagination rewriter, the schema-qualifier resolver, the
  type renderer and the execution context of \<^verbatim>\<open>lib/sqlalchemy/dialects/mssql/base.py\<close>.

  Naming: a Python name with a leading underscore, which is not an Isabelle identifier,
  is written with the prefix \<open>u_\<close>: \<^verbatim>\<open>select._limit_clause\<close> is \<open>u_limit_clause\<close>,
  \<^verbatim>\<open>_schema_elements\<close> is \<open>u_schema_elements\<close>. A raised exception is the \<open>Inl\<close> of a
  sum type.
\<close>

datatype error =
    CompileError string
  | IndexError
  | TypeError
  | DBAPIError string

subsection \<open>Names and versions\<close>

text \<open>
  A schema name is a Python string or a \<^verbatim>\<open>quoted_name\<close>, the string subclass that carries
  a \<^verbatim>\<open>quote\<close> flag (\<^verbatim>\<open>True\<close>, \<^verbatim>\<open>False\<close> or \<^verbatim>\<open>None\<close>).
\<close>

datatype name =
    Str string
  | Quoted_name string "bool option"

fun text_of :: "name \<Rightarrow> string" where
  "text_of (Str s) = s"
| "text_of (Quoted_name s q) = s"

text \<open>Python's order on tuples of integers, for the comparison of version tuples.\<close>

fun tuple_less :: "int list \<Rightarrow> int list \<Rightarrow> bool" where
  "tuple_less [] [] = False"
| "tuple_less [] (y # ys) = True"
| "tuple_less (x # xs) [] = False"
| "tuple_less (x # xs) (y # ys) = (x < y \<or> (x = y \<and> tuple_less xs ys))"

definition MS_2012_VERSION :: "int list" where "MS_2012_VERSION = [11]"
definition MS_2008_VERSION :: "int list" where "MS_2008_VERSION = [10]"
definition MS_2005_VERSION :: "int list" where "MS_2005_VERSION = [9]"

record dialect =
  server_version_info :: "int list"
  u_supports_offset_fetch :: bool
  deprecate_large_types :: "bool option"
  implicit_returning :: bool
  full_returning :: bool
  supports_multivalues_insert :: bool
  use_scope_identity :: bool
  schema_name :: string
  default_schema_name :: "name option"

subsection \<open>Statement trees\<close>

datatype operator = Gt | Le | Add

text \<open>
  The expression nodes the pagination code builds or inspects. \<open>OffsetLimitParam n\<close> is
  the bind parameter that \<^verbatim>\<open>select.limit(n)\<close> and \<^verbatim>\<open>select.offset(n)\<close> make of a plain
  integer; \<open>Expression\<close> is any other SQL expression, kept opaque.
\<close>

datatype clause_element =
    ColumnClause string
  | OffsetLimitParam int
  | Expression string
  | BinaryExpression clause_element operator clause_element
  | RowNumberOver "clause_element list"
  | Label string clause_element

text \<open>A SELECT with the attributes the dialect reads or sets; \<open>u_mssql_visit\<close> is the tag
  \<^verbatim>\<open>_mssql_visit\<close> that the rewrite puts on the statement it wraps.\<close>

datatype select =
  Select (u_raw_columns: "clause_element list")
         (u_from_obj: "from_clause list")
         (u_where_criteria: "clause_element list")
         (u_order_by_clause: "clause_element list")
         (u_limit_clause: "clause_element option")
         (u_offset_clause: "clause_element option")
         (u_mssql_visit: bool)
and from_clause =
    TableClause string
  | Alias select

text \<open>
  Modelled from the spec: the properties of a SELECT that the dialect reads, which live in
  sqlalchemy/sql/selectable.py. A LIMIT or OFFSET is "simple" when it is a plain
  integer/bind-literal; \<^verbatim>\<open>_offset\<close> is the integer of a simple OFFSET, \<^verbatim>\<open>None\<close> when
  there is no OFFSET, and a compile error on any other expression. The dialect reads
  \<^verbatim>\<open>_offset\<close> only behind guards that exclude the last case.
\<close>

fun is_OffsetLimitParam :: "clause_element option \<Rightarrow> bool" where
  "is_OffsetLimitParam (Some (OffsetLimitParam n)) = True"
| "is_OffsetLimitParam _ = False"

definition u_simple_int_limit :: "select \<Rightarrow> bool" where
  "u_simple_int_limit s = is_OffsetLimitParam (u_limit_clause s)"

definition u_simple_int_offset :: "select \<Rightarrow> bool" where
  "u_simple_int_offset s = is_OffsetLimitParam (u_offset_clause s)"

fun u_offset_or_limit_clause_asint :: "clause_element option \<Rightarrow> error + int option" where
  "u_offset_or_limit_clause_asint None = Inr None"
| "u_offset_or_limit_clause_asint (Some (OffsetLimitParam n)) = Inr (Some n)"
| "u_offset_or_limit_clause_asint (Some _) =
     Inl (CompileError ''This SELECT structure does not use a simple integer value'')"

definition u_offset :: "select \<Rightarrow> error + int option" where
  "u_offset s = u_offset_or_limit_clause_asint (u_offset_clause s)"

text \<open>Python truthiness of an optional integer: \<^verbatim>\<open>None\<close> and \<open>0\<close> are false.\<close>

fun truthy :: "int option \<Rightarrow> bool" where
  "truthy None = False"
| "truthy (Some n) = (n \<noteq> 0)"

text \<open>The key under which a column of a SELECT is found in the \<^verbatim>\<open>.c\<close> collection of
  its alias: the label, or the column's name (an unlabelled expression has an anonymous
  key, written as the empty name here).\<close>

fun key :: "clause_element \<Rightarrow> string" where
  "key (Label n e) = n"
| "key (ColumnClause n) = n"
| "key _ = []"

subsection \<open>Dialect and compiler\<close>

record kw =
  literal_execute :: bool

text \<open>
  The compiler object. \<open>process\<close> (the inherited renderer of an expression),
  \<open>process_from\<close> (the same for an element of the FROM list),
  \<open>super_get_select_precolumns\<close> (the base class's pre-column text, such as DISTINCT) and
  \<open>unwrap_label_reference\<close> (of sqlalchemy/sql/util.py) are not part of the dialect module
  and are parameters.
\<close>

record compiler =
  dialect :: dialect
  process :: "clause_element \<Rightarrow> kw \<Rightarrow> string"
  process_from :: "from_clause \<Rightarrow> kw \<Rightarrow> string"
  super_get_select_precolumns :: "select \<Rightarrow> kw \<Rightarrow> string"
  unwrap_label_reference :: "clause_element \<Rightarrow> clause_element"

definition order_by_required :: error where
  "order_by_required =
     CompileError ''MSSQL requires an order_by when using an OFFSET or a non-simple LIMIT clause''"

subsection \<open>MSSQLCompiler.get_select_precolumns\<close>

definition get_select_precolumns :: "compiler \<Rightarrow> select \<Rightarrow> kw \<Rightarrow> error + string" where
  "get_select_precolumns c select k =
     (let s = super_get_select_precolumns c select k in
      if \<not> u_simple_int_limit select then Inr s
      else if u_offset_clause select = None then
        Inr (s @ ''TOP '' @ process c (the (u_limit_clause select)) (k\<lparr>literal_execute := True\<rparr>) @ '' '')
      else if \<not> u_simple_int_offset select then Inr s
      else (case u_offset select of
              Inl e \<Rightarrow> Inl e
            | Inr v \<Rightarrow>
                if v = Some 0 then
                  Inr (s @ ''TOP '' @ process c (the (u_limit_clause select)) (k\<lparr>literal_execute := True\<rparr>) @ '' '')
                else Inr s))"

subsection \<open>MSSQLCompiler.limit_clause\<close>

definition limit_clause :: "compiler \<Rightarrow> select \<Rightarrow> kw \<Rightarrow> error + string" where
  "limit_clause c select k =
     (let native =
        (let offset_str = (case u_offset_clause select of
                             Some off \<Rightarrow> process c off k
                           | None \<Rightarrow> ''0'');
             text1 = [CHR 0x0A] @ '' OFFSET '' @ offset_str @ '' ROWS''
         in if u_order_by_clause select = [] then Inl order_by_required
            else (case u_limit_clause select of
                    Some lim \<Rightarrow>
                      Inr (text1 @ [CHR 0x0A] @ '' FETCH NEXT '' @ process c lim k @ '' ROWS ONLY '')
                  | None \<Rightarrow> Inr text1))
      in
      if \<not> u_supports_offset_fetch (dialect c) then Inr ''''
      else if \<not> (u_simple_int_limit select \<or> u_limit_clause select = None) then native
      else if \<not> (u_offset_clause select = None \<or> u_simple_int_offset select) then native
      else (case u_offset select of
              Inl e \<Rightarrow> Inl e
            | Inr v \<Rightarrow> if \<not> truthy v then Inr '''' else native))"

subsection \<open>MSSQLCompiler.translate_select_structure\<close>

definition mssql_rn :: clause_element where
  "mssql_rn = ColumnClause ''mssql_rn''"

text \<open>The body of the rewriting branch: the statement is copied, tagged, given the
  \<^verbatim>\<open>ROW_NUMBER() OVER (ORDER BY ...)\<close> column, stripped of its ORDER BY and aliased; the
  outer statement selects every column of the alias but \<^verbatim>\<open>mssql_rn\<close> and filters on it.
  The branch is entered without an OFFSET only for a LIMIT that is not a plain integer, so
  the filter \<^verbatim>\<open>mssql_rn <= limit\<close> of the \<^verbatim>\<open>else\<close> always has its limit.\<close>

definition row_number_subquery :: "compiler \<Rightarrow> select \<Rightarrow> select" where
  "row_number_subquery c select =
     Select (u_raw_columns select @
               [Label ''mssql_rn''
                  (RowNumberOver (map (unwrap_label_reference c) (u_order_by_clause select)))])
            (u_from_obj select)
            (u_where_criteria select)
            []
            (u_limit_clause select)
            (u_offset_clause select)
            True"

definition limitselect :: "compiler \<Rightarrow> select \<Rightarrow> select" where
  "limitselect c select =
     (let inner = row_number_subquery c select;
          cols = map (\<lambda>col. ColumnClause (key col))
                   (filter (\<lambda>col. key col \<noteq> ''mssql_rn'') (u_raw_columns inner));
          criteria =
            (case u_offset_clause select of
               Some off \<Rightarrow>
                 BinaryExpression mssql_rn Gt off #
                   (case u_limit_clause select of
                      Some lim \<Rightarrow>
                        [BinaryExpression mssql_rn Le (BinaryExpression lim Add off)]
                    | None \<Rightarrow> [])
             | None \<Rightarrow>
                 (case u_limit_clause select of
                    Some lim \<Rightarrow> [BinaryExpression mssql_rn Le lim]
                  | None \<Rightarrow> []))
      in Select cols [Alias inner] criteria [] None None False)"

definition translate_select_structure :: "compiler \<Rightarrow> select \<Rightarrow> error + select" where
  "translate_select_structure c select =
     (let rewrite =
        (if u_mssql_visit select then Inr select
         else if u_order_by_clause select = [] then Inl order_by_required
         else Inr (limitselect c select))
      in
      if u_supports_offset_fetch (dialect c) then Inr select
      else if \<not> u_simple_int_limit select \<and> u_limit_clause select \<noteq> None then rewrite
      else if u_offset_clause select \<noteq> None \<and> \<not> u_simple_int_offset select then rewrite
      else (case u_offset select of
              Inl e \<Rightarrow> Inl e
            | Inr v \<Rightarrow> if truthy v then rewrite else Inr select))"

subsection \<open>One render call of a SELECT\<close>

fun join :: "string \<Rightarrow> string list \<Rightarrow> string" where
  "join sep [] = []"
| "join sep [x] = x"
| "join sep (x # y # ys) = x @ sep @ join sep (y # ys)"

text \<open>
  Modelled from the spec: SQLCompiler.visit_select, which is not part of the dialect module,
  for a top-level statement. One render call translates the structure once and then asks
  the dialect for the pre-column text and the limit clause of the translated statement;
  the rendered text is
  \<^verbatim>\<open>SELECT <precolumns><columns> FROM <froms> [WHERE ...] [ORDER BY ...]<limit clause>\<close>.
\<close>

definition visit_select :: "compiler \<Rightarrow> select \<Rightarrow> kw \<Rightarrow> error + string" where
  "visit_select c select k =
     (case translate_select_structure c select of
        Inl e \<Rightarrow> Inl e
      | Inr s \<Rightarrow>
          (case get_select_precolumns c s k of
             Inl e \<Rightarrow> Inl e
           | Inr pre \<Rightarrow>
               (case limit_clause c s k of
                  Inl e \<Rightarrow> Inl e
                | Inr lim \<Rightarrow>
                    Inr (''SELECT '' @ pre
                         @ join '', '' (map (\<lambda>col. process c col k) (u_raw_columns s))
                         @ (if u_from_obj s = [] then []
                            else '' FROM '' @ join '', '' (map (\<lambda>f. process_from c f k) (u_from_obj s)))
                         @ (if u_where_criteria s = [] then []
                            else '' WHERE '' @ join '' AND '' (map (\<lambda>w. process c w k) (u_where_criteria s)))
                         @ (if u_order_by_clause s = [] then []
                            else '' ORDER BY '' @ join '', '' (map (\<lambda>ob. process c ob k) (u_order_by_clause s)))
                         @ lim))))"

text \<open>The pagination strategies, and the ones one render call applies: the rewrite when
  the translated statement is a new one, TOP when the dialect adds to the pre-column text,
  OFFSET/FETCH when the limit clause is not empty.\<close>

datatype pagination = NativeOffsetFetch | TopOnly | RowNumberRewrite

definition applied_pagination :: "compiler \<Rightarrow> select \<Rightarrow> kw \<Rightarrow> error + pagination list" where
  "applied_pagination c select k =
     (case translate_select_structure c select of
        Inl e \<Rightarrow> Inl e
      | Inr s \<Rightarrow>
          (case get_select_precolumns c s k of
             Inl e \<Rightarrow> Inl e
           | Inr pre \<Rightarrow>
               (case limit_clause c s k of
                  Inl e \<Rightarrow> Inl e
                | Inr lim \<Rightarrow>
                    Inr ((if s \<noteq> select then [RowNumberRewrite] else [])
                         @ (if pre \<noteq> super_get_select_precolumns c s k then [TopOnly] else [])
                         @ (if lim \<noteq> [] then [NativeOffsetFetch] else [])))))"

text \<open>
  Modelled from the spec: the inherited rendering of the expression nodes above. A plain
  integer renders as an inline literal under \<^verbatim>\<open>literal_execute\<close> and as a bound
  parameter otherwise.
\<close>

definition digit_char :: "nat \<Rightarrow> char" where
  "digit_char d = ''0123456789'' ! d"

function str_nat :: "nat \<Rightarrow> string" where
  "str_nat n = (if n < 10 then [digit_char n] else str_nat (n div 10) @ [digit_char (n mod 10)])"
  by pat_completeness auto
termination
  by (relation "measure id") auto

definition str_int :: "int \<Rightarrow> string" where
  "str_int i = (if i < 0 then CHR ''-'' # str_nat (nat (- i)) else str_nat (nat i))"

fun operator_text :: "operator \<Rightarrow> string" where
  "operator_text Gt = '' > ''"
| "operator_text Le = '' <= ''"
| "operator_text Add = '' + ''"

fun render_expression :: "clause_element \<Rightarrow> kw \<Rightarrow> string" where
  "render_expression (ColumnClause n) k = n"
| "render_expression (OffsetLimitParam n) k = (if literal_execute k then str_int n else '':param'')"
| "render_expression (Expression t) k = t"
| "render_expression (BinaryExpression l opr r) k =
     render_expression l k @ operator_text opr @ render_expression r k"
| "render_expression (RowNumberOver obs) k =
     ''ROW_NUMBER() OVER (ORDER BY '' @ join '', '' (map (\<lambda>ob. render_expression ob k) obs) @ '')''"
| "render_expression (Label n e) k = render_expression e k @ '' AS '' @ n"

fun render_from :: "from_clause \<Rightarrow> kw \<Rightarrow> string" where
  "render_from (TableClause n) k = n"
| "render_from (Alias s) k = ''anon_1''"

definition old_server :: dialect where
  "old_server = \<lparr>server_version_info = [10, 50], u_supports_offset_fetch = False,
     deprecate_large_types = Some False, implicit_returning = True, full_returning = True,
     supports_multivalues_insert = True, use_scope_identity = True, schema_name = ''dbo'',
     default_schema_name = None\<rparr>"

definition new_server :: dialect where
  "new_server = \<lparr>server_version_info = [11, 0], u_supports_offset_fetch = True,
     deprecate_large_types = Some True, implicit_returning = True, full_returning = True,
     supports_multivalues_insert = True, use_scope_identity = True, schema_name = ''dbo'',
     default_schema_name = None\<rparr>"

definition compiler_for :: "dialect \<Rightarrow> compiler" where
  "compiler_for d = \<lparr>dialect = d, process = render_expression, process_from = render_from,
     super_get_select_precolumns = (\<lambda>s k. []), unwrap_label_reference = (\<lambda>e. e)\<rparr>"

definition no_kw :: kw where
  "no_kw = \<lparr>literal_execute = False\<rparr>"

text \<open>The statement shapes the claims speak of: a LIMIT or OFFSET that is present and
  not a plain integer, an OFFSET that is a plain integer other than 0, and a statement
  that needs more than TOP.\<close>

fun nontrivial :: "clause_element option \<Rightarrow> bool" where
  "nontrivial None = False"
| "nontrivial (Some (OffsetLimitParam n)) = False"
| "nontrivial (Some _) = True"

fun nonzero_offset :: "clause_element option \<Rightarrow> bool" where
  "nonzero_offset (Some (OffsetLimitParam n)) = (n \<noteq> 0)"
| "nonzero_offset _ = False"

definition needs_offset_handling :: "select \<Rightarrow> bool" where
  "needs_offset_handling s =
     (nontrivial (u_limit_clause s) \<or> nontrivial (u_offset_clause s)
      \<or> nonzero_offset (u_offset_clause s))"

definition select_x_from_t :: select where
  "select_x_from_t = Select [ColumnClause ''x''] [TableClause ''t''] [] [] None None False"

definition limit :: "clause_element \<Rightarrow> select \<Rightarrow> select" where
  "limit e s = Select (u_raw_columns s) (u_from_obj s) (u_where_criteria s) (u_order_by_clause s)
                      (Some e) (u_offset_clause s) (u_mssql_visit s)"

definition offset :: "clause_element \<Rightarrow> select \<Rightarrow> select" where
  "offset e s = Select (u_raw_columns s) (u_from_obj s) (u_where_criteria s) (u_order_by_clause s)
                       (u_limit_clause s) (Some e) (u_mssql_visit s)"

definition order_by :: "clause_element list \<Rightarrow> select \<Rightarrow> select" where
  "order_by obs s = Select (u_raw_columns s) (u_from_obj s) (u_where_criteria s) obs
                           (u_limit_clause s) (u_offset_clause s) (u_mssql_visit s)"

definition top_only :: "select \<Rightarrow> bool" where
  "top_only s = (u_simple_int_limit s \<and>
      (u_offset_clause s = None \<or> u_offset_clause s = Some (OffsetLimitParam 0)))"

text \<open>The text of the OFFSET/FETCH clause that \<open>limit_clause\<close> builds.\<close>

definition offset_fetch_text :: "compiler \<Rightarrow> select \<Rightarrow> kw \<Rightarrow> string" where
  "offset_fetch_text c s k =
     [CHR 0x0A] @ '' OFFSET ''
       @ (case u_offset_clause s of Some off \<Rightarrow> process c off k | None \<Rightarrow> ''0'')
       @ '' ROWS''
       @ (case u_limit_clause s of
            Some lim \<Rightarrow> [CHR 0x0A] @ '' FETCH NEXT '' @ process c lim k @ '' ROWS ONLY ''
          | None \<Rightarrow> [])"

text \<open>Example statements: \<^verbatim>\<open>SELECT x FROM t ORDER BY x LIMIT 5 OFFSET 10\<close>,
  \<^verbatim>\<open>SELECT x FROM t LIMIT 5\<close>, \<^verbatim>\<open>SELECT x FROM t LIMIT 5 OFFSET 0\<close> and
  \<^verbatim>\<open>SELECT x FROM t OFFSET 10\<close>.\<close>

definition paged :: select where
  "paged = offset (OffsetLimitParam 10) (limit (OffsetLimitParam 5)
             (order_by [ColumnClause ''x''] select_x_from_t))"

definition top5 :: select where
  "top5 = limit (OffsetLimitParam 5) select_x_from_t"

definition top5_offset0 :: select where
  "top5_offset0 = offset (OffsetLimitParam 0) top5"

definition offset10 :: select where
  "offset10 = offset (OffsetLimitParam 10) select_x_from_t"

subsection \<open>The schema-qualifier resolver\<close>

text \<open>
  Modelled from the spec: \<^verbatim>\<open>util.LRUCache\<close>, which is not part of the dialect module: a
  cache of fixed capacity that evicts the least recently used entry. The entries are kept
  most recently used first; a \<^verbatim>\<open>quoted_name\<close> hashes and compares as its text, so the key
  is the text of the schema name.
\<close>

record 'v LRUCache =
  capacity :: nat
  entries :: "(string \<times> 'v) list"

definition lru_contains :: "'v LRUCache \<Rightarrow> string \<Rightarrow> bool" where
  "lru_contains c k = (map_of (entries c) k \<noteq> None)"

definition lru_getitem :: "'v LRUCache \<Rightarrow> string \<Rightarrow> ('v \<times> 'v LRUCache) option" where
  "lru_getitem c k =
     (case map_of (entries c) k of
        None \<Rightarrow> None
      | Some v \<Rightarrow> Some (v, c\<lparr>entries := (k, v) # filter (\<lambda>e. fst e \<noteq> k) (entries c)\<rparr>))"

definition lru_setitem :: "'v LRUCache \<Rightarrow> string \<Rightarrow> 'v \<Rightarrow> 'v LRUCache" where
  "lru_setitem c k v =
     c\<lparr>entries := take (capacity c) ((k, v) # filter (\<lambda>e. fst e \<noteq> k) (entries c))\<rparr>"

text \<open>\<^verbatim>\<open>re.split(r"(\[|\]|\.)", schema)\<close>: the pieces between the delimiters, empty ones
  included, with each delimiter as a token of its own.\<close>

definition is_delimiter :: "char \<Rightarrow> bool" where
  "is_delimiter ch = (ch = CHR ''['' \<or> ch = CHR '']'' \<or> ch = CHR ''.'')"

fun re_split :: "string \<Rightarrow> string \<Rightarrow> string list" where
  "re_split cur [] = [cur]"
| "re_split cur (ch # rest) =
     (if is_delimiter ch then cur # [ch] # re_split [] rest else re_split (cur @ [ch]) rest)"

text \<open>The local variables of the loop of \<^verbatim>\<open>_schema_elements\<close>, and its body.\<close>

record scan =
  push :: "string list"
  symbol :: string
  bracket :: bool
  has_brackets :: bool

definition scan_start :: scan where
  "scan_start = \<lparr>push = [], symbol = [], bracket = False, has_brackets = False\<rparr>"

definition scan_token :: "scan \<Rightarrow> string \<Rightarrow> scan" where
  "scan_token st token =
     (if token = [] then st
      else if token = ''['' then st\<lparr>bracket := True, has_brackets := True\<rparr>
      else if token = '']'' then st\<lparr>bracket := False\<rparr>
      else if \<not> bracket st \<and> token = ''.'' then
        st\<lparr>push := push st @ [if has_brackets st then ''['' @ symbol st @ '']'' else symbol st],
           symbol := [], has_brackets := False\<rparr>
      else st\<lparr>symbol := symbol st @ token\<rparr>)"

definition scan_schema :: "string \<Rightarrow> scan" where
  "scan_schema schema = foldl scan_token scan_start (re_split [] schema)"

text \<open>\<^verbatim>\<open>re.match(r".*\].*\[.*", s)\<close>: the dot of the pattern matches no newline and the match
  is anchored at the start, so the first line of \<open>s\<close> has a \<^verbatim>\<open>]\<close> with a \<^verbatim>\<open>[\<close> after it.\<close>

definition internal_brackets :: "string \<Rightarrow> bool" where
  "internal_brackets s =
     (CHR ''['' \<in> set (dropWhile (\<lambda>ch. ch \<noteq> CHR '']'') (takeWhile (\<lambda>ch. ch \<noteq> CHR 0x0A) s)))"

definition lstrip :: "char \<Rightarrow> string \<Rightarrow> string" where
  "lstrip ch s = dropWhile (\<lambda>x. x = ch) s"

definition rstrip :: "char \<Rightarrow> string \<Rightarrow> string" where
  "rstrip ch s = rev (dropWhile (\<lambda>x. x = ch) (rev s))"

definition dbname_of :: "string \<Rightarrow> name" where
  "dbname_of dbname =
     (if internal_brackets (butlast (tl dbname)) then Quoted_name dbname (Some False)
      else Str (rstrip (CHR '']'') (lstrip (CHR ''['') dbname)))"

type_synonym qualified_name = "name option \<times> name option"

text \<open>The computation of \<^verbatim>\<open>_schema_elements\<close> on a cache miss.\<close>

definition schema_elements_of :: "string \<Rightarrow> qualified_name" where
  "schema_elements_of schema =
     (let st = scan_schema schema;
          pushed = (if symbol st \<noteq> [] then push st @ [symbol st] else push st)
      in if length pushed > 1 then
           (Some (dbname_of (join ''.'' (butlast pushed))), Some (Str (last pushed)))
         else if pushed \<noteq> [] then (None, Some (Str (hd pushed)))
         else (None, None))"

fun quote_set :: "name \<Rightarrow> bool" where
  "quote_set (Quoted_name s (Some True)) = True"
| "quote_set _ = False"

definition u_schema_elements ::
  "qualified_name LRUCache \<Rightarrow> name \<Rightarrow> qualified_name \<times> qualified_name LRUCache" where
  "u_schema_elements u_memoized_schema schema =
     (if quote_set schema then ((None, Some schema), u_memoized_schema)
      else (case lru_getitem u_memoized_schema (text_of schema) of
              Some hit \<Rightarrow> hit
            | None \<Rightarrow>
                (let r = schema_elements_of (text_of schema)
                 in (r, lru_setitem u_memoized_schema (text_of schema) r))))"

definition u_owner_plus_db ::
  "dialect \<Rightarrow> qualified_name LRUCache \<Rightarrow> name option \<Rightarrow> qualified_name \<times> qualified_name LRUCache" where
  "u_owner_plus_db d u_memoized_schema schema =
     (case schema of
        None \<Rightarrow> ((None, default_schema_name d), u_memoized_schema)
      | Some n \<Rightarrow>
          if text_of n = [] then ((None, default_schema_name d), u_memoized_schema)
          else if CHR ''.'' \<in> set (text_of n) then u_schema_elements u_memoized_schema n
          else ((None, Some n), u_memoized_schema))"

text \<open>\<^verbatim>\<open>MSDialect._get_default_schema_name\<close>; \<open>probe\<close> is what the server answers to
  \<^verbatim>\<open>SELECT schema_name()\<close>.\<close>

definition u_get_default_schema_name :: "dialect \<Rightarrow> string option \<Rightarrow> name" where
  "u_get_default_schema_name d probe =
     (if tuple_less (server_version_info d) MS_2005_VERSION then Str (schema_name d)
      else (case probe of
              Some answer \<Rightarrow> Quoted_name answer (Some True)
            | None \<Rightarrow> Str (schema_name d)))"





text \<open>The loop, started in any state.\<close>

definition scan_from :: "scan \<Rightarrow> string \<Rightarrow> scan" where
  "scan_from st s = foldl scan_token st (re_split [] s)"






definition stale_cache :: "qualified_name LRUCache" where
  "stale_cache = \<lparr>capacity = 100,
     entries = [(''my.schema'', (Some (Str ''my''), Some (Str ''schema'')))]\<rparr>"

subsection \<open>The type renderer\<close>

text \<open>The attributes of a type object that the string and binary renderers read.\<close>

record sql_type =
  type_length :: "int option"
  type_collation :: "string option"

text \<open>The \<^verbatim>\<open>length\<close> argument of \<^verbatim>\<open>_extend\<close>: a number or the word \<^verbatim>\<open>max\<close>.\<close>

datatype length_argument = Chars int | Max

fun length_truthy :: "length_argument option \<Rightarrow> bool" where
  "length_truthy None = False"
| "length_truthy (Some (Chars n)) = (n \<noteq> 0)"
| "length_truthy (Some Max) = True"

fun length_text :: "length_argument \<Rightarrow> string" where
  "length_text (Chars n) = str_int n"
| "length_text Max = ''max''"

definition u_extend :: "string \<Rightarrow> sql_type \<Rightarrow> length_argument option \<Rightarrow> string" where
  "u_extend spec t len =
     (let collation = (case type_collation t of
                         None \<Rightarrow> None
                       | Some coll \<Rightarrow> if coll = [] then None else Some (''COLLATE '' @ coll));
          len1 = (if \<not> length_truthy len then map_option Chars (type_length t) else len);
          spec1 = (if length_truthy len1 then spec @ ''('' @ length_text (the len1) @ '')'' else spec)
      in join '' '' (spec1 # (case collation of None \<Rightarrow> [] | Some coll \<Rightarrow> [coll])))"

text \<open>\<^verbatim>\<open>type_.length or "max"\<close>.\<close>

definition length_or_max :: "sql_type \<Rightarrow> length_argument option" where
  "length_or_max t =
     (if length_truthy (map_option Chars (type_length t)) then map_option Chars (type_length t)
      else Some Max)"

definition visit_NTEXT :: "sql_type \<Rightarrow> string" where
  "visit_NTEXT t = u_extend ''NTEXT'' t None"

definition visit_NVARCHAR :: "sql_type \<Rightarrow> string" where
  "visit_NVARCHAR t = u_extend ''NVARCHAR'' t (length_or_max t)"

definition visit_VARBINARY :: "sql_type \<Rightarrow> string" where
  "visit_VARBINARY t = u_extend ''VARBINARY'' t (length_or_max t)"

definition visit_IMAGE :: "sql_type \<Rightarrow> string" where
  "visit_IMAGE t = ''IMAGE''"

definition visit_unicode_text :: "dialect \<Rightarrow> sql_type \<Rightarrow> string" where
  "visit_unicode_text d t =
     (if deprecate_large_types d = Some True then visit_NVARCHAR t else visit_NTEXT t)"

definition visit_large_binary :: "dialect \<Rightarrow> sql_type \<Rightarrow> string" where
  "visit_large_binary d t =
     (if deprecate_large_types d = Some True then visit_VARBINARY t else visit_IMAGE t)"

text \<open>\<^verbatim>\<open>MSDialect._setup_version_attributes\<close>. The warning about an unrecognised version
  only logs; reading \<^verbatim>\<open>server_version_info[0]\<close> for it raises on an empty tuple.\<close>

definition u_setup_version_attributes :: "dialect \<Rightarrow> error + dialect" where
  "u_setup_version_attributes d =
     (case server_version_info d of
        [] \<Rightarrow> Inl IndexError
      | major # rest \<Rightarrow>
          (let d1 = (if tuple_less (server_version_info d) MS_2005_VERSION
                     then d\<lparr>implicit_returning := False, full_returning := False\<rparr> else d);
               d2 = (if \<not> tuple_less (server_version_info d1) MS_2008_VERSION
                     then d1\<lparr>supports_multivalues_insert := True\<rparr> else d1);
               d3 = (if deprecate_large_types d2 = None
                     then d2\<lparr>deprecate_large_types :=
                                Some (\<not> tuple_less (server_version_info d2) MS_2012_VERSION)\<rparr>
                     else d2)
           in Inr (d3\<lparr>u_supports_offset_fetch := (major \<ge> 11)\<rparr>)))"

definition large_type :: sql_type where
  "large_type = \<lparr>type_length = None, type_collation = None\<rparr>"

definition unprobed_server :: "int list \<Rightarrow> dialect" where
  "unprobed_server version = \<lparr>server_version_info = version, u_supports_offset_fetch = False,
     deprecate_large_types = None, implicit_returning = True, full_returning = True,
     supports_multivalues_insert = False, use_scope_identity = True, schema_name = ''dbo'',
     default_schema_name = None\<rparr>"

text \<open>The words of the amended claim: the length a type has of its own (none, when the
  attribute is \<^verbatim>\<open>None\<close> or 0), and the collation that follows the type's name.\<close>

definition own_length :: "sql_type \<Rightarrow> int option" where
  "own_length t = (case type_length t of None \<Rightarrow> None | Some n \<Rightarrow> if n = 0 then None else Some n)"

definition collate_suffix :: "sql_type \<Rightarrow> string" where
  "collate_suffix t =
     (case type_collation t of
        None \<Rightarrow> []
      | Some coll \<Rightarrow> if coll = [] then [] else '' COLLATE '' @ coll)"

definition sized_type :: sql_type where
  "sized_type = \<lparr>type_length = Some 50, type_collation = None\<rparr>"

definition collated_type :: sql_type where
  "collated_type = \<lparr>type_length = None, type_collation = Some ''Latin1_General_CI_AS''\<rparr>"

subsection \<open>The execution context\<close>

text \<open>
  The DBAPI cursor is outside the module. It is modelled by what the dialect sees of it:
  the server's answer to a statement, which may depend on the statements sent before,
  is a failure or rows with a row count; \<open>executed\<close> records every statement sent, in
  order, whether it failed or not.
\<close>

datatype cell = Number int | Null

datatype response = Failure error | Rows "cell list list" int

record cursor =
  server :: "string list \<Rightarrow> string \<Rightarrow> response"
  executed :: "string list"
  pending :: "cell list list"
  rowcount :: int

definition cursor_execute :: "cursor \<Rightarrow> string \<Rightarrow> cursor \<times> error option" where
  "cursor_execute cur stmt =
     (case server cur (executed cur) stmt of
        Failure e \<Rightarrow> (cur\<lparr>executed := executed cur @ [stmt]\<rparr>, Some e)
      | Rows rs n \<Rightarrow>
          (cur\<lparr>executed := executed cur @ [stmt], pending := rs, rowcount := n\<rparr>, None))"

definition fetchall :: "cursor \<Rightarrow> cell list list \<times> cursor" where
  "fetchall cur = (pending cur, cur\<lparr>pending := []\<rparr>)"

text \<open>Python's \<^verbatim>\<open>int(row[0])\<close> on the first column of a row.\<close>

fun int_of_first :: "cell list \<Rightarrow> error + int" where
  "int_of_first [] = Inl IndexError"
| "int_of_first (Number n # rest) = Inr n"
| "int_of_first (Null # rest) = Inl TypeError"

record column =
  column_key :: string
  default_is_Sequence :: bool

record table =
  table_name :: string
  u_autoincrement_column :: "column option"

text \<open>A key of \<^verbatim>\<open>compile_state._dict_parameters\<close>: a name or a column object.\<close>

datatype parameter_key = Key string | ColumnKey column

record compiled =
  statement_table :: table
  inline :: bool
  returning :: bool
  u_dict_parameters :: "parameter_key list option"

text \<open>
  The context of one statement invocation. \<open>format_table\<close> (of the identifier preparer)
  and \<open>u_encoder\<close> (of the dialect) are outside the module and are parameters;
  \<open>compiled_parameters\<close> holds the keys of each parameter set.
\<close>

record execution_context =
  isinsert :: bool
  isupdate :: bool
  isdelete :: bool
  executemany :: bool
  compiled :: compiled
  compiled_parameters :: "string list list"
  statement :: string
  cursor :: cursor
  context_dialect :: dialect
  format_table :: "table \<Rightarrow> string"
  supports_unicode_statements :: bool
  u_encoder :: "string \<Rightarrow> string"
  u_enable_identity_insert :: bool
  u_select_lastrowid :: bool
  u_lastrowid :: "int option"
  u_rowcount :: "int option"
  cursor_fetch_strategy :: "cell list list option"

text \<open>The class attributes of \<^verbatim>\<open>MSExecutionContext\<close>, with which every context starts.\<close>

definition fresh :: "execution_context \<Rightarrow> bool" where
  "fresh ctx = (\<not> u_enable_identity_insert ctx \<and> \<not> u_select_lastrowid ctx
                \<and> u_lastrowid ctx = None \<and> u_rowcount ctx = None)"

definition u_opt_encode :: "execution_context \<Rightarrow> string \<Rightarrow> string" where
  "u_opt_encode ctx stmt =
     (if \<not> supports_unicode_statements ctx then u_encoder ctx stmt else stmt)"

definition identity_insert_on :: "execution_context \<Rightarrow> string" where
  "identity_insert_on ctx =
     u_opt_encode ctx (''SET IDENTITY_INSERT '' @ format_table ctx (statement_table (compiled ctx)) @ '' ON'')"

definition identity_insert_off :: "execution_context \<Rightarrow> string" where
  "identity_insert_off ctx =
     u_opt_encode ctx (''SET IDENTITY_INSERT '' @ format_table ctx (statement_table (compiled ctx)) @ '' OFF'')"

definition lastrowid_query :: "execution_context \<Rightarrow> string" where
  "lastrowid_query ctx =
     (if use_scope_identity (context_dialect ctx) then ''SELECT scope_identity() AS lastrowid''
      else ''SELECT @@identity AS lastrowid'')"

definition insert_has_identity :: "execution_context \<Rightarrow> bool" where
  "insert_has_identity ctx =
     (case u_autoincrement_column (statement_table (compiled ctx)) of
        None \<Rightarrow> False
      | Some id_column \<Rightarrow> \<not> default_is_Sequence id_column)"

text \<open>\<^verbatim>\<open>MSExecutionContext.pre_exec\<close>. The result is the context as the call leaves it and
  the exception it raised, if any.\<close>

definition pre_exec :: "execution_context \<Rightarrow> execution_context \<times> error option" where
  "pre_exec ctx =
     (if \<not> isinsert ctx then (ctx, None)
      else if insert_has_identity ctx \<and> compiled_parameters ctx = [] then (ctx, Some IndexError)
      else
        (let enable =
               (case u_autoincrement_column (statement_table (compiled ctx)) of
                  None \<Rightarrow> False
                | Some id_column \<Rightarrow>
                    insert_has_identity ctx \<and>
                    (column_key id_column \<in> set (hd (compiled_parameters ctx))
                     \<or> (case u_dict_parameters (compiled ctx) of
                           None \<Rightarrow> False
                         | Some params \<Rightarrow>
                             Key (column_key id_column) \<in> set params
                             \<or> ColumnKey id_column \<in> set params)));
             ctx1 = ctx\<lparr>u_enable_identity_insert := enable,
                        u_select_lastrowid :=
                          (\<not> inline (compiled ctx) \<and> insert_has_identity ctx
                           \<and> \<not> returning (compiled ctx) \<and> \<not> enable \<and> \<not> executemany ctx)\<rparr>
         in if enable then
              (case cursor_execute (cursor ctx1) (identity_insert_on ctx1) of
                 (cur, r) \<Rightarrow> (ctx1\<lparr>cursor := cur\<rparr>, r))
            else (ctx1, None)))"

text \<open>\<^verbatim>\<open>MSExecutionContext.post_exec\<close>.\<close>

definition post_exec :: "execution_context \<Rightarrow> execution_context \<times> error option" where
  "post_exec ctx =
     (let dml = (isinsert ctx \<or> isupdate ctx \<or> isdelete ctx);
          ctx1 = (if dml then ctx\<lparr>u_rowcount := Some (rowcount (cursor ctx))\<rparr> else ctx);
          disable = (\<lambda>c. if u_enable_identity_insert c then
                            (case cursor_execute (cursor c) (identity_insert_off c) of
                               (cur, r) \<Rightarrow> (c\<lparr>cursor := cur\<rparr>, r))
                          else (c, None))
      in if u_select_lastrowid ctx1 then
           (case cursor_execute (cursor ctx1) (lastrowid_query ctx1) of
              (cur, Some e) \<Rightarrow> (ctx1\<lparr>cursor := cur\<rparr>, Some e)
            | (cur, None) \<Rightarrow>
                (case fetchall cur of
                   (rows, cur1) \<Rightarrow>
                     (case rows of
                        [] \<Rightarrow> (ctx1\<lparr>cursor := cur1\<rparr>, Some IndexError)
                      | row # others \<Rightarrow>
                          (case int_of_first row of
                             Inl e \<Rightarrow> (ctx1\<lparr>cursor := cur1\<rparr>, Some e)
                           | Inr n \<Rightarrow> disable (ctx1\<lparr>cursor := cur1, u_lastrowid := Some n\<rparr>)))))
         else if dml \<and> returning (compiled ctx1) then
           (case fetchall (cursor ctx1) of
              (rows, cur1) \<Rightarrow> disable (ctx1\<lparr>cursor := cur1, cursor_fetch_strategy := Some rows\<rparr>))
         else disable ctx1)"

text \<open>\<^verbatim>\<open>MSExecutionContext.handle_dbapi_exception\<close>: whatever the cleanup raises is
  swallowed.\<close>

definition handle_dbapi_exception :: "execution_context \<Rightarrow> error \<Rightarrow> execution_context" where
  "handle_dbapi_exception ctx e =
     (if u_enable_identity_insert ctx then
        (case cursor_execute (cursor ctx) (identity_insert_off ctx) of
           (cur, r) \<Rightarrow> ctx\<lparr>cursor := cur\<rparr>)
      else ctx)"

text \<open>
  Modelled from the spec: the engine's execution of one statement, which is not part of
  the dialect module. The enable-mode statement completes before the main statement
  starts, and the main statement completes before the disable-mode or last-id statement
  starts; when the main statement fails, the cleanup of the context is attempted and the
  original error is re-raised to the caller.
\<close>

definition execute :: "execution_context \<Rightarrow> execution_context \<times> error option" where
  "execute ctx =
     (case pre_exec ctx of
        (ctx1, Some e) \<Rightarrow> (ctx1, Some e)
      | (ctx1, None) \<Rightarrow>
          (case cursor_execute (cursor ctx1) (statement ctx1) of
             (cur, Some e) \<Rightarrow> (handle_dbapi_exception (ctx1\<lparr>cursor := cur\<rparr>) e, Some e)
           | (cur, None) \<Rightarrow> post_exec (ctx1\<lparr>cursor := cur\<rparr>)))"

text \<open>Example invocations: an INSERT into a table \<^verbatim>\<open>t\<close> with the identity column \<^verbatim>\<open>id\<close>,
  one parameter set with the given keys, on a server that accepts the enabling statement
  and fails every other one, or on one that answers every statement.\<close>

definition table_t :: table where
  "table_t = \<lparr>table_name = ''t'',
     u_autoincrement_column = Some \<lparr>column_key = ''id'', default_is_Sequence = False\<rparr>\<rparr>"

definition failing_server :: "string list \<Rightarrow> string \<Rightarrow> response" where
  "failing_server history stmt =
     (if stmt = ''SET IDENTITY_INSERT t ON'' then Rows [] (- 1)
      else if stmt = ''SET IDENTITY_INSERT t OFF'' then Failure (DBAPIError ''cleanup failed'')
      else Failure (DBAPIError ''insert failed''))"

definition answering_server :: "string list \<Rightarrow> string \<Rightarrow> response" where
  "answering_server history stmt =
     (if stmt = ''SELECT scope_identity() AS lastrowid'' then Rows [[Number 42]] 1
      else Rows [] 1)"

definition insert_context ::
  "(string list \<Rightarrow> string \<Rightarrow> response) \<Rightarrow> string list \<Rightarrow> bool \<Rightarrow> execution_context" where
  "insert_context srv keys inl =
     \<lparr>isinsert = True, isupdate = False, isdelete = False, executemany = False,
      compiled = \<lparr>statement_table = table_t, inline = inl, returning = False,
                  u_dict_parameters = None\<rparr>,
      compiled_parameters = [keys],
      statement = ''INSERT INTO t'',
      cursor = \<lparr>server = srv, executed = [], pending = [], rowcount = - 1\<rparr>,
      context_dialect = new_server,
      format_table = table_name,
      supports_unicode_statements = True,
      u_encoder = (\<lambda>stmt. stmt),
      u_enable_identity_insert = False, u_select_lastrowid = False,
      u_lastrowid = None, u_rowcount = None, cursor_fetch_strategy = None\<rparr>"

section \<open>Properties of the pagination rewriter\<close>

lemma nontrivial_iff: "nontrivial cl \<longleftrightarrow> cl \<noteq> None \<and> \<not> is_OffsetLimitParam cl"
  by (induction cl rule: nontrivial.induct) auto

lemma simple_offset_value:
  "\<not> nontrivial cl \<Longrightarrow>
     \<exists>v. u_offset_or_limit_clause_asint cl = Inr v \<and> (truthy v \<longleftrightarrow> nonzero_offset cl)
         \<and> (v = Some 0 \<longleftrightarrow> cl = Some (OffsetLimitParam 0))"
  by (induction cl rule: nontrivial.induct) auto

lemma translate_select_structure_cases:
  "translate_select_structure c s =
     (if \<not> u_supports_offset_fetch (dialect c) \<and> needs_offset_handling s \<and> \<not> u_mssql_visit s
      then (if u_order_by_clause s = [] then Inl order_by_required else Inr (limitselect c s))
      else Inr s)"
proof (cases "nontrivial (u_offset_clause s)")
  case True
  then show ?thesis
    by (auto simp: translate_select_structure_def Let_def needs_offset_handling_def nontrivial_iff
        u_simple_int_limit_def u_simple_int_offset_def)
next
  case False
  from simple_offset_value [OF this] obtain v where
    "u_offset s = Inr v" "truthy v \<longleftrightarrow> nonzero_offset (u_offset_clause s)"
    by (auto simp: u_offset_def)
  with False show ?thesis
    by (auto simp: translate_select_structure_def Let_def needs_offset_handling_def nontrivial_iff
        u_simple_int_limit_def u_simple_int_offset_def)
qed

lemma limit_clause_cases:
  "limit_clause c s k =
     (if u_supports_offset_fetch (dialect c) \<and> needs_offset_handling s
      then (if u_order_by_clause s = [] then Inl order_by_required
            else Inr (offset_fetch_text c s k))
      else Inr [])"
proof (cases "nontrivial (u_offset_clause s)")
  case True
  then show ?thesis
    by (auto simp: limit_clause_def Let_def needs_offset_handling_def nontrivial_iff offset_fetch_text_def
        u_simple_int_limit_def u_simple_int_offset_def split: option.splits)
next
  case False
  from simple_offset_value [OF this] obtain v where
    "u_offset s = Inr v" "truthy v \<longleftrightarrow> nonzero_offset (u_offset_clause s)"
    by (auto simp: u_offset_def)
  with False show ?thesis
    by (auto simp: limit_clause_def Let_def needs_offset_handling_def nontrivial_iff offset_fetch_text_def
        u_simple_int_limit_def u_simple_int_offset_def split: option.splits)
qed

lemma get_select_precolumns_cases:
  "get_select_precolumns c s k =
     Inr (super_get_select_precolumns c s k @
          (if top_only s
           then ''TOP '' @ process c (the (u_limit_clause s)) (k\<lparr>literal_execute := True\<rparr>) @ '' ''
           else []))"
proof (cases "nontrivial (u_offset_clause s)")
  case True
  then show ?thesis
    by (auto simp: get_select_precolumns_def Let_def top_only_def nontrivial_iff
        u_simple_int_limit_def u_simple_int_offset_def)
next
  case False
  from simple_offset_value [OF this] obtain v where
    "u_offset s = Inr v" "v = Some 0 \<longleftrightarrow> u_offset_clause s = Some (OffsetLimitParam 0)"
    by (auto simp: u_offset_def)
  with False show ?thesis
    by (auto simp: get_select_precolumns_def Let_def top_only_def nontrivial_iff
        u_simple_int_limit_def u_simple_int_offset_def)
qed

lemma top_only_excludes: "top_only s \<Longrightarrow> \<not> needs_offset_handling s"
  by (cases "u_limit_clause s" rule: nontrivial.cases; cases "u_offset_clause s" rule: nontrivial.cases)
     (auto simp: top_only_def needs_offset_handling_def u_simple_int_limit_def)

lemma limitselect_plain [simp]:
  "u_limit_clause (limitselect c s) = None" "u_offset_clause (limitselect c s) = None"
  "u_order_by_clause (limitselect c s) = []" "\<not> u_mssql_visit (limitselect c s)"
  "u_from_obj (limitselect c s) = [Alias (row_number_subquery c s)]"
  by (simp_all add: limitselect_def Let_def)

lemma row_number_subquery_sel [simp]:
  "u_limit_clause (row_number_subquery c s) = u_limit_clause s"
  "u_offset_clause (row_number_subquery c s) = u_offset_clause s"
  "u_order_by_clause (row_number_subquery c s) = []"
  "u_mssql_visit (row_number_subquery c s)"
  by (simp_all add: row_number_subquery_def)

lemma limitselect_no_pagination [simp]:
  "\<not> needs_offset_handling (limitselect c s)" "\<not> top_only (limitselect c s)"
  by (simp_all add: needs_offset_handling_def top_only_def u_simple_int_limit_def)

lemma needs_offset_handling_subquery [simp]:
  "needs_offset_handling (row_number_subquery c s) = needs_offset_handling s"
  "top_only (row_number_subquery c s) = top_only s"
  by (simp_all add: needs_offset_handling_def top_only_def u_simple_int_limit_def)

lemma limitselect_neq: "needs_offset_handling s \<Longrightarrow> limitselect c s \<noteq> s"
proof
  assume n: "needs_offset_handling s" and e: "limitselect c s = s"
  from e have "u_limit_clause s = None" "u_offset_clause s = None"
    using limitselect_plain(1,2) [of c s] by simp_all
  with n show False by (simp add: needs_offset_handling_def)
qed

text \<open>
  Claim C1. Under a dialect without OFFSET/FETCH, a statement (not yet tagged, with an
  ORDER BY) whose pagination needs more than TOP is rewritten, and the outer statement of
  the rewrite has no ORDER BY; when the statement has an OFFSET, the outer filter is
  exactly \<^verbatim>\<open>mssql_rn > offset\<close>, followed by \<^verbatim>\<open>mssql_rn <= limit + offset\<close> when there is
  a LIMIT and by nothing when there is none.
\<close>

theorem rank_filter:
  assumes "\<not> u_supports_offset_fetch (dialect c)" and "\<not> u_mssql_visit s"
    and "u_order_by_clause s \<noteq> []" and "needs_offset_handling s"
  shows "\<exists>s'. translate_select_structure c s = Inr s' \<and> u_order_by_clause s' = [] \<and>
     (\<forall>off. u_offset_clause s = Some off \<longrightarrow>
        u_where_criteria s' =
          BinaryExpression mssql_rn Gt off #
            (case u_limit_clause s of
               Some lim \<Rightarrow> [BinaryExpression mssql_rn Le (BinaryExpression lim Add off)]
             | None \<Rightarrow> []))"
  using assms by (simp add: translate_select_structure_cases limitselect_def Let_def)

lemma paged_sel:
  "u_limit_clause paged = Some (OffsetLimitParam 5)"
  "u_offset_clause paged = Some (OffsetLimitParam 10)"
  "u_order_by_clause paged = [ColumnClause ''x'']"
  "\<not> u_mssql_visit paged"
  by (simp_all add: paged_def offset_def limit_def order_by_def select_x_from_t_def)

text \<open>
  \<^verbatim>\<open>SELECT x FROM t ORDER BY x LIMIT 5 OFFSET 10\<close> on a server without OFFSET/FETCH.
\<close>

theorem rank_filter_witness:
  "\<exists>s'. translate_select_structure (compiler_for old_server) paged = Inr s' \<and>
        u_order_by_clause s' = [] \<and>
        u_where_criteria s' =
          [BinaryExpression mssql_rn Gt (OffsetLimitParam 10),
           BinaryExpression mssql_rn Le (BinaryExpression (OffsetLimitParam 5) Add (OffsetLimitParam 10))]"
  using rank_filter [of "compiler_for old_server" paged]
  by (simp add: paged_sel needs_offset_handling_def compiler_for_def old_server_def)

text \<open>
  Claim C4, as amended. When LIMIT or OFFSET is an expression other than a plain integer,
  or OFFSET is a plain integer other than 0, a statement without ORDER BY raises the
  compile error: in \<open>limit_clause\<close> under OFFSET/FETCH, in \<open>translate_select_structure\<close>
  otherwise (for a statement that does not carry the rewrite tag), and the render call
  returns the error and no text.
\<close>

theorem order_by_mandatory:
  assumes "needs_offset_handling s" and "u_order_by_clause s = []"
  shows "(u_supports_offset_fetch (dialect c) \<longrightarrow> limit_clause c s k = Inl order_by_required)
       \<and> (\<not> u_supports_offset_fetch (dialect c) \<and> \<not> u_mssql_visit s \<longrightarrow>
            translate_select_structure c s = Inl order_by_required)
       \<and> (u_supports_offset_fetch (dialect c) \<or> \<not> u_mssql_visit s \<longrightarrow>
            visit_select c s k = Inl order_by_required)"
  using assms
  by (auto simp: visit_select_def translate_select_structure_cases limit_clause_cases
      get_select_precolumns_cases)

lemma str_int_5: "str_int 5 = ''5''"
  by (simp add: str_int_def digit_char_def)

text \<open>
  \<^verbatim>\<open>SELECT x FROM t OFFSET 10\<close> on both kinds of server.
\<close>

theorem order_by_mandatory_witness:
  "limit_clause (compiler_for new_server) offset10 no_kw = Inl order_by_required
   \<and> translate_select_structure (compiler_for old_server) offset10 = Inl order_by_required
   \<and> visit_select (compiler_for old_server) offset10 no_kw = Inl order_by_required
   \<and> visit_select (compiler_for new_server) offset10 no_kw = Inl order_by_required"
  using order_by_mandatory [of offset10 "compiler_for new_server" no_kw]
    order_by_mandatory [of offset10 "compiler_for old_server" no_kw]
  by (simp add: offset10_def offset_def select_x_from_t_def needs_offset_handling_def
      compiler_for_def old_server_def new_server_def)

text \<open>
  Claim C4 as stated fails: with a plain \<^verbatim>\<open>OFFSET 0\<close> an OFFSET is present, the statement
  has no ORDER BY, and both branches compile it (to a TOP query) without an error.
\<close>

theorem order_by_not_mandatory_offset_0:
  "u_offset_clause top5_offset0 \<noteq> None \<and> u_order_by_clause top5_offset0 = []
   \<and> translate_select_structure (compiler_for old_server) top5_offset0 = Inr top5_offset0
   \<and> limit_clause (compiler_for new_server) top5_offset0 no_kw = Inr []
   \<and> visit_select (compiler_for old_server) top5_offset0 no_kw = Inr ''SELECT TOP 5 x FROM t''
   \<and> visit_select (compiler_for new_server) top5_offset0 no_kw = Inr ''SELECT TOP 5 x FROM t''"
  by (simp add: visit_select_def translate_select_structure_cases limit_clause_cases
      get_select_precolumns_cases top_only_def u_simple_int_limit_def needs_offset_handling_def
      top5_offset0_def top5_def offset_def limit_def select_x_from_t_def
      compiler_for_def old_server_def new_server_def no_kw_def str_int_5)

text \<open>
  Claim C5. With a plain integer LIMIT and no OFFSET, or a plain OFFSET 0, the pre-column
  text is the inherited one followed by \<^verbatim>\<open>TOP <limit> \<close>, the limit being rendered with
  \<^verbatim>\<open>literal_execute\<close> set whatever the caller passed; no rewrite and no limit clause are
  produced.
\<close>

theorem top_modifier:
  assumes "u_limit_clause s = Some (OffsetLimitParam n)"
    and "u_offset_clause s = None \<or> u_offset_clause s = Some (OffsetLimitParam 0)"
  shows "get_select_precolumns c s k =
           Inr (super_get_select_precolumns c s k
                @ ''TOP '' @ process c (OffsetLimitParam n) (k\<lparr>literal_execute := True\<rparr>) @ '' '')
       \<and> translate_select_structure c s = Inr s
       \<and> limit_clause c s k = Inr []"
proof -
  from assms have t: "top_only s"
    by (simp add: top_only_def u_simple_int_limit_def)
  then have "\<not> needs_offset_handling s"
    by (rule top_only_excludes)
  with t assms(1) show ?thesis
    by (simp add: get_select_precolumns_cases translate_select_structure_cases limit_clause_cases)
qed

text \<open>
  \<^verbatim>\<open>SELECT x FROM t LIMIT 5\<close> renders as \<^verbatim>\<open>SELECT TOP 5 x FROM t\<close>; without
  \<^verbatim>\<open>literal_execute\<close> the same limit would be a bound parameter.
\<close>

theorem top_modifier_witness:
  "get_select_precolumns (compiler_for old_server) top5 no_kw = Inr ''TOP 5 ''
   \<and> visit_select (compiler_for old_server) top5 no_kw = Inr ''SELECT TOP 5 x FROM t''
   \<and> render_expression (OffsetLimitParam 5) no_kw = '':param''"
  using top_modifier [of top5 5 "compiler_for old_server" no_kw]
  by (simp add: visit_select_def top5_def limit_def select_x_from_t_def
      compiler_for_def no_kw_def str_int_5)

text \<open>
  Claim C6. A statement that carries the rewrite tag is returned unchanged, and the
  translation is idempotent: its result is returned unchanged by a second translation, and
  so is the tagged subquery inside a rewritten statement.
\<close>

theorem rewrite_idempotent:
  "(u_mssql_visit s \<longrightarrow> translate_select_structure c s = Inr s)
   \<and> (\<forall>s'. translate_select_structure c s = Inr s' \<longrightarrow>
          translate_select_structure c s' = Inr s'
          \<and> (s' \<noteq> s \<longrightarrow> (\<exists>inner. u_from_obj s' = [Alias inner] \<and> u_mssql_visit inner
                               \<and> translate_select_structure c inner = Inr inner)))"
  by (auto simp: translate_select_structure_cases split: if_splits)

text \<open>
  The rewrite of \<^verbatim>\<open>SELECT x FROM t ORDER BY x LIMIT 5 OFFSET 10\<close>, translated again.
\<close>

theorem rewrite_idempotent_witness:
  "translate_select_structure (compiler_for old_server) paged
     = Inr (limitselect (compiler_for old_server) paged)
   \<and> translate_select_structure (compiler_for old_server) (limitselect (compiler_for old_server) paged)
     = Inr (limitselect (compiler_for old_server) paged)
   \<and> u_mssql_visit (row_number_subquery (compiler_for old_server) paged)
   \<and> translate_select_structure (compiler_for old_server) (row_number_subquery (compiler_for old_server) paged)
     = Inr (row_number_subquery (compiler_for old_server) paged)"
proof -
  have a: "translate_select_structure (compiler_for old_server) paged
     = Inr (limitselect (compiler_for old_server) paged)"
    by (simp add: translate_select_structure_cases paged_sel needs_offset_handling_def
        compiler_for_def old_server_def)
  from rewrite_idempotent [of "row_number_subquery (compiler_for old_server) paged" "compiler_for old_server"]
  have b: "translate_select_structure (compiler_for old_server) (row_number_subquery (compiler_for old_server) paged)
     = Inr (row_number_subquery (compiler_for old_server) paged)"
    by simp
  from rewrite_idempotent [of paged "compiler_for old_server"] a
  have c: "translate_select_structure (compiler_for old_server) (limitselect (compiler_for old_server) paged)
     = Inr (limitselect (compiler_for old_server) paged)"
    by simp
  from a b c show ?thesis by simp
qed

lemma offset_fetch_text_nonempty: "offset_fetch_text c s k \<noteq> []"
  by (simp add: offset_fetch_text_def)

lemma applied_pagination_cases:
  "applied_pagination c s k =
     (if needs_offset_handling s \<and> u_order_by_clause s = []
         \<and> (u_supports_offset_fetch (dialect c) \<or> \<not> u_mssql_visit s)
      then Inl order_by_required
      else Inr (if top_only s then [TopOnly]
                else if \<not> needs_offset_handling s then []
                else if u_supports_offset_fetch (dialect c) then [NativeOffsetFetch]
                else if u_mssql_visit s then []
                else [RowNumberRewrite]))"
proof (cases "top_only s")
  case True
  then have "\<not> needs_offset_handling s" by (rule top_only_excludes)
  with True show ?thesis
    by (simp add: applied_pagination_def translate_select_structure_cases
        get_select_precolumns_cases limit_clause_cases)
next
  case False
  then show ?thesis
    by (simp add: applied_pagination_def translate_select_structure_cases
        get_select_precolumns_cases limit_clause_cases offset_fetch_text_nonempty limitselect_neq)
qed

text \<open>
  Claim C8, as amended. One render call that succeeds applies at most one of the three
  strategies; for a statement that does not carry the rewrite tag it applies exactly one
  if and only if the statement has a LIMIT, or an OFFSET other than a plain 0. After a
  rewrite, rendering the ranked subquery or the outer statement applies none.
\<close>

theorem one_pagination_strategy:
  assumes "applied_pagination c s k = Inr ps"
  shows "length ps \<le> 1
       \<and> (\<not> u_mssql_visit s \<longrightarrow>
            (length ps = 1 \<longleftrightarrow> u_limit_clause s \<noteq> None \<or> needs_offset_handling s))
       \<and> (ps = [RowNumberRewrite] \<longrightarrow>
            applied_pagination c (row_number_subquery c s) k = Inr []
            \<and> applied_pagination c (limitselect c s) k = Inr [])"
proof -
  have lim: "u_limit_clause s \<noteq> None \<or> needs_offset_handling s
             \<longleftrightarrow> top_only s \<or> needs_offset_handling s"
    by (cases "u_limit_clause s" rule: nontrivial.cases;
        cases "u_offset_clause s" rule: nontrivial.cases)
       (auto simp: top_only_def needs_offset_handling_def u_simple_int_limit_def)
  have sub: "ps = [RowNumberRewrite] \<Longrightarrow>
       applied_pagination c (row_number_subquery c s) k = Inr []
       \<and> applied_pagination c (limitselect c s) k = Inr []"
    using assms
    by (auto simp: applied_pagination_cases split: if_splits)
  from assms have "length ps \<le> 1"
    by (auto simp: applied_pagination_cases split: if_splits)
  moreover from assms have "\<not> u_mssql_visit s \<longrightarrow>
      (length ps = 1 \<longleftrightarrow> u_limit_clause s \<noteq> None \<or> needs_offset_handling s)"
    unfolding lim using top_only_excludes [of s]
    by (auto simp: applied_pagination_cases split: if_splits)
  ultimately show ?thesis using sub by blast
qed

text \<open>
  The three strategies, each on its own.
\<close>

theorem one_pagination_strategy_witness:
  "applied_pagination (compiler_for old_server) paged no_kw = Inr [RowNumberRewrite]
   \<and> applied_pagination (compiler_for old_server)
        (row_number_subquery (compiler_for old_server) paged) no_kw = Inr []
   \<and> applied_pagination (compiler_for old_server)
        (limitselect (compiler_for old_server) paged) no_kw = Inr []
   \<and> applied_pagination (compiler_for new_server) paged no_kw = Inr [NativeOffsetFetch]
   \<and> applied_pagination (compiler_for new_server) top5 no_kw = Inr [TopOnly]"
proof -
  have a: "applied_pagination (compiler_for old_server) paged no_kw = Inr [RowNumberRewrite]"
    by (simp add: applied_pagination_cases paged_sel needs_offset_handling_def top_only_def
        u_simple_int_limit_def compiler_for_def old_server_def)
  have b: "applied_pagination (compiler_for new_server) paged no_kw = Inr [NativeOffsetFetch]"
    by (simp add: applied_pagination_cases paged_sel needs_offset_handling_def top_only_def
        u_simple_int_limit_def compiler_for_def new_server_def)
  have c: "applied_pagination (compiler_for new_server) top5 no_kw = Inr [TopOnly]"
    by (simp add: applied_pagination_cases top5_def limit_def select_x_from_t_def
        needs_offset_handling_def top_only_def u_simple_int_limit_def)
  from one_pagination_strategy [OF a] a b c show ?thesis by simp
qed

text \<open>
  Claim C8 as stated fails: a statement without LIMIT and OFFSET gets none of the three
  strategies.
\<close>

theorem no_pagination_strategy:
  "applied_pagination (compiler_for old_server) select_x_from_t no_kw = Inr []
   \<and> applied_pagination (compiler_for new_server) select_x_from_t no_kw = Inr []"
  by (simp add: applied_pagination_cases select_x_from_t_def
      needs_offset_handling_def top_only_def u_simple_int_limit_def)

section \<open>Properties of the schema-qualifier resolver\<close>



























lemma scan_from_Nil [simp]: "scan_from st [] = st"
  by (simp add: scan_from_def scan_token_def)






















text \<open>
  Claim C10. A \<^verbatim>\<open>quoted_name\<close> whose quote flag is set is returned as the owner, with no
  database, whatever its text and whatever the cache holds, and the cache is left as it
  was. The default-schema probe (on SQL Server 2005 and later) wraps the server's answer
  in such a name, so feeding it back to the resolver never splits it.
\<close>

theorem quoted_schema_not_split:
  "u_schema_elements cache (Quoted_name s (Some True)) = ((None, Some (Quoted_name s (Some True))), cache)
   \<and> (\<not> tuple_less (server_version_info d) MS_2005_VERSION \<longrightarrow>
        u_schema_elements cache (u_get_default_schema_name d (Some answer))
          = ((None, Some (Quoted_name answer (Some True))), cache)
        \<and> (CHR ''.'' \<in> set answer \<longrightarrow>
             u_owner_plus_db d cache (Some (u_get_default_schema_name d (Some answer)))
               = ((None, Some (Quoted_name answer (Some True))), cache)))"
  by (auto simp: u_schema_elements_def u_get_default_schema_name_def u_owner_plus_db_def)

text \<open>
  A default schema \<^verbatim>\<open>my.schema\<close> on SQL Server 2012, with a cache that already holds the
  split of the same text.
\<close>

theorem quoted_schema_not_split_witness:
  "u_schema_elements stale_cache (u_get_default_schema_name new_server (Some ''my.schema''))
     = ((None, Some (Quoted_name ''my.schema'' (Some True))), stale_cache)
   \<and> u_owner_plus_db new_server stale_cache (Some (u_get_default_schema_name new_server (Some ''my.schema'')))
     = ((None, Some (Quoted_name ''my.schema'' (Some True))), stale_cache)
   \<and> fst (u_schema_elements stale_cache (Str ''my.schema'')) = (Some (Str ''my''), Some (Str ''schema''))"
proof -
  have v: "\<not> tuple_less (server_version_info new_server) MS_2005_VERSION"
    by (simp add: new_server_def MS_2005_VERSION_def)
  have "fst (u_schema_elements stale_cache (Str ''my.schema'')) = (Some (Str ''my''), Some (Str ''schema''))"
    by (simp add: u_schema_elements_def lru_getitem_def stale_cache_def)
  with quoted_schema_not_split [of stale_cache "''my.schema''" new_server "''my.schema''"] v
  show ?thesis by simp
qed

section \<open>Properties of the type renderer\<close>


lemma tuple_less_Nil [simp]: "\<not> tuple_less v []"
  by (cases v) simp_all

lemma str_int_50: "str_int 50 = ''50''"
  by (simp add: str_int_def digit_char_def)

lemma visit_NVARCHAR_text:
  "visit_NVARCHAR t =
     ''NVARCHAR('' @ (case own_length t of Some n \<Rightarrow> str_int n | None \<Rightarrow> ''max'') @ '')''
       @ collate_suffix t"
  by (cases "type_length t"; cases "type_collation t")
     (auto simp: visit_NVARCHAR_def u_extend_def length_or_max_def own_length_def
       collate_suffix_def Let_def)

lemma visit_VARBINARY_text:
  "visit_VARBINARY t =
     ''VARBINARY('' @ (case own_length t of Some n \<Rightarrow> str_int n | None \<Rightarrow> ''max'') @ '')''
       @ collate_suffix t"
  by (cases "type_length t"; cases "type_collation t")
     (auto simp: visit_VARBINARY_def u_extend_def length_or_max_def own_length_def
       collate_suffix_def Let_def)

lemma visit_NTEXT_text:
  "visit_NTEXT t =
     ''NTEXT'' @ (case own_length t of Some n \<Rightarrow> ''('' @ str_int n @ '')'' | None \<Rightarrow> [])
       @ collate_suffix t"
  by (cases "type_length t"; cases "type_collation t")
     (auto simp: visit_NTEXT_def u_extend_def own_length_def collate_suffix_def Let_def)

text \<open>
  Claim C9, as amended. When \<^verbatim>\<open>deprecate_large_types\<close> is true, a unicode large text renders
  as \<^verbatim>\<open>NVARCHAR(n)\<close> and a large binary as \<^verbatim>\<open>VARBINARY(n)\<close>, where \<open>n\<close> is the length the type
  has of its own, or \<^verbatim>\<open>max\<close> when it has none. When the flag is false or unset, they render
  as \<^verbatim>\<open>NTEXT\<close>, followed by \<^verbatim>\<open>(n)\<close> when the type has a length of its own, and as \<^verbatim>\<open>IMAGE\<close>.
  A collation of the type follows as \<^verbatim>\<open>COLLATE name\<close>, except after \<^verbatim>\<open>IMAGE\<close>. The version
  setup, on a detected version, leaves a flag that is set and sets an unset one to whether
  the major version is at least 11.
\<close>

theorem large_types:
  "visit_unicode_text d t =
     (if deprecate_large_types d = Some True
      then ''NVARCHAR('' @ (case own_length t of Some n \<Rightarrow> str_int n | None \<Rightarrow> ''max'') @ '')''
      else ''NTEXT'' @ (case own_length t of Some n \<Rightarrow> ''('' @ str_int n @ '')'' | None \<Rightarrow> []))
     @ collate_suffix t
   \<and> visit_large_binary d t =
     (if deprecate_large_types d = Some True
      then ''VARBINARY('' @ (case own_length t of Some n \<Rightarrow> str_int n | None \<Rightarrow> ''max'') @ '')''
           @ collate_suffix t
      else ''IMAGE'')
   \<and> (\<forall>major rest. server_version_info d = major # rest \<longrightarrow>
        (\<exists>d'. u_setup_version_attributes d = Inr d' \<and>
              deprecate_large_types d' =
                (case deprecate_large_types d of None \<Rightarrow> Some (11 \<le> major) | Some b \<Rightarrow> Some b)))"
proof -
  have sv: "\<forall>major rest. server_version_info d = major # rest \<longrightarrow>
        (\<exists>d'. u_setup_version_attributes d = Inr d' \<and>
              deprecate_large_types d' =
                (case deprecate_large_types d of None \<Rightarrow> Some (11 \<le> major) | Some b \<Rightarrow> Some b))"
    by (auto simp: u_setup_version_attributes_def Let_def MS_2012_VERSION_def split: option.splits)
  from sv show ?thesis
    by (simp add: visit_unicode_text_def visit_large_binary_def visit_IMAGE_def
        visit_NVARCHAR_text visit_VARBINARY_text visit_NTEXT_text)
qed

text \<open>
  The two syntaxes on SQL Server 2012 and 2008 R2 for a type without a length, a type
  with a collation, and an unset flag before and after the version setup.
\<close>

theorem large_types_witness:
  "visit_unicode_text new_server large_type = ''NVARCHAR(max)''
   \<and> visit_large_binary new_server large_type = ''VARBINARY(max)''
   \<and> visit_unicode_text old_server large_type = ''NTEXT''
   \<and> visit_large_binary old_server large_type = ''IMAGE''
   \<and> visit_unicode_text (unprobed_server [11, 0]) large_type = ''NTEXT''
   \<and> visit_large_binary (unprobed_server [11, 0]) large_type = ''IMAGE''
   \<and> visit_unicode_text new_server collated_type = ''NVARCHAR(max) COLLATE Latin1_General_CI_AS''
   \<and> (\<exists>d'. u_setup_version_attributes (unprobed_server [11, 0]) = Inr d'
           \<and> deprecate_large_types d' = Some True)
   \<and> (\<exists>d'. u_setup_version_attributes (unprobed_server [10, 50]) = Inr d'
           \<and> deprecate_large_types d' = Some False)"
proof -
  have t: "own_length large_type = None" "collate_suffix large_type = []"
    "own_length collated_type = None" "collate_suffix collated_type = '' COLLATE Latin1_General_CI_AS''"
    by (simp_all add: large_type_def collated_type_def own_length_def collate_suffix_def)
  have f: "deprecate_large_types new_server = Some True" "deprecate_large_types old_server = Some False"
    "deprecate_large_types (unprobed_server [11, 0]) = None"
    "deprecate_large_types (unprobed_server [10, 50]) = None"
    "server_version_info (unprobed_server [11, 0]) = [11, 0]"
    "server_version_info (unprobed_server [10, 50]) = [10, 50]"
    by (simp_all add: new_server_def old_server_def unprobed_server_def)
  from large_types [of new_server large_type] large_types [of old_server large_type]
    large_types [of "unprobed_server [11, 0]" large_type]
    large_types [of "unprobed_server [10, 50]" large_type]
    large_types [of new_server collated_type] t f
  show ?thesis by simp
qed

text \<open>
  Claim C9 as stated fails for a type with a length of its own: with length 50 the texts
  are \<^verbatim>\<open>NVARCHAR(50)\<close>, \<^verbatim>\<open>VARBINARY(50)\<close> and \<^verbatim>\<open>NTEXT(50)\<close>, not \<^verbatim>\<open>NVARCHAR(max)\<close>,
  \<^verbatim>\<open>VARBINARY(max)\<close> and \<^verbatim>\<open>NTEXT\<close>.
\<close>

theorem sized_large_types:
  "visit_unicode_text new_server sized_type = ''NVARCHAR(50)''
   \<and> visit_large_binary new_server sized_type = ''VARBINARY(50)''
   \<and> visit_unicode_text old_server sized_type = ''NTEXT(50)''"
  by (simp add: visit_unicode_text_def visit_large_binary_def visit_NVARCHAR_def visit_VARBINARY_def
      visit_NTEXT_def u_extend_def length_or_max_def sized_type_def new_server_def old_server_def
      str_int_50)

section \<open>Properties of the execution context\<close>

lemma cursor_execute_sel [simp]:
  "executed (fst (cursor_execute cur stmt)) = executed cur @ [stmt]"
  "server (fst (cursor_execute cur stmt)) = server cur"
  "snd (cursor_execute cur stmt) =
     (case server cur (executed cur) stmt of Failure e \<Rightarrow> Some e | Rows rs n \<Rightarrow> None)"
  by (simp_all add: cursor_execute_def split: response.splits)

lemma cursor_executeD:
  "cursor_execute cur stmt = (cur', r) \<Longrightarrow>
     executed cur' = executed cur @ [stmt] \<and> server cur' = server cur
     \<and> r = (case server cur (executed cur) stmt of Failure e \<Rightarrow> Some e | Rows rs n \<Rightarrow> None)"
  by (auto simp: cursor_execute_def split: response.splits)

lemma statements_unchanged [simp]:
  "identity_insert_off (ctx\<lparr>cursor := cur\<rparr>) = identity_insert_off ctx"
  "identity_insert_off (ctx\<lparr>u_rowcount := rc\<rparr>) = identity_insert_off ctx"
  "identity_insert_off (ctx\<lparr>u_lastrowid := li\<rparr>) = identity_insert_off ctx"
  "identity_insert_off (ctx\<lparr>cursor_fetch_strategy := fs\<rparr>) = identity_insert_off ctx"
  "identity_insert_off (ctx\<lparr>u_enable_identity_insert := b1\<rparr>) = identity_insert_off ctx"
  "identity_insert_off (ctx\<lparr>u_select_lastrowid := b2\<rparr>) = identity_insert_off ctx"
  "identity_insert_on (ctx\<lparr>u_enable_identity_insert := b1\<rparr>) = identity_insert_on ctx"
  "identity_insert_on (ctx\<lparr>u_select_lastrowid := b2\<rparr>) = identity_insert_on ctx"
  "lastrowid_query (ctx\<lparr>cursor := cur\<rparr>) = lastrowid_query ctx"
  "lastrowid_query (ctx\<lparr>u_rowcount := rc\<rparr>) = lastrowid_query ctx"
  "lastrowid_query (ctx\<lparr>u_enable_identity_insert := b1\<rparr>) = lastrowid_query ctx"
  "lastrowid_query (ctx\<lparr>u_select_lastrowid := b2\<rparr>) = lastrowid_query ctx"
  by (simp_all add: identity_insert_off_def identity_insert_on_def lastrowid_query_def u_opt_encode_def)

text \<open>What a completed pre_exec leaves.\<close>

lemma pre_exec_result:
  assumes "fresh ctx" and "pre_exec ctx = (ctx1, r)"
  shows "statement ctx1 = statement ctx"
    and "identity_insert_off ctx1 = identity_insert_off ctx"
    and "lastrowid_query ctx1 = lastrowid_query ctx"
    and "server (cursor ctx1) = server (cursor ctx)"
    and "isinsert ctx1 = isinsert ctx" and "isupdate ctx1 = isupdate ctx" and "isdelete ctx1 = isdelete ctx"
    and "compiled ctx1 = compiled ctx"
    and "u_lastrowid ctx1 = None"
    and "\<not> (u_enable_identity_insert ctx1 \<and> u_select_lastrowid ctx1)"
    and "executed (cursor ctx1) =
           executed (cursor ctx) @ (if u_enable_identity_insert ctx1 then [identity_insert_on ctx] else [])"
    and "r = None \<Longrightarrow> u_select_lastrowid ctx1 \<longleftrightarrow>
           isinsert ctx \<and> \<not> inline (compiled ctx) \<and> insert_has_identity ctx
           \<and> \<not> returning (compiled ctx) \<and> \<not> u_enable_identity_insert ctx1 \<and> \<not> executemany ctx"
  using assms
  by (auto simp: pre_exec_def fresh_def Let_def split: if_splits prod.splits option.splits
      dest!: cursor_executeD)

lemma fetchall_sel [simp]:
  "fst (fetchall cur) = pending cur" "executed (snd (fetchall cur)) = executed cur"
  by (simp_all add: fetchall_def)

lemma post_exec_executed:
  assumes "\<not> (u_enable_identity_insert ctx \<and> u_select_lastrowid ctx)"
  shows "executed (cursor (fst (post_exec ctx))) =
           executed (cursor ctx) @
             (if u_select_lastrowid ctx then [lastrowid_query ctx]
              else if u_enable_identity_insert ctx then [identity_insert_off ctx] else [])"
  using assms
  by (auto simp: post_exec_def Let_def fetchall_def
      split: prod.splits option.splits list.splits sum.splits dest!: cursor_executeD)

lemma post_exec_lastrowid:
  assumes "u_select_lastrowid ctx" and "\<not> u_enable_identity_insert ctx"
    and "server (cursor ctx) (executed (cursor ctx)) (lastrowid_query ctx) = Rows ((Number k # r) # others) m"
  shows "snd (post_exec ctx) = None \<and> u_lastrowid (fst (post_exec ctx)) = Some k"
  using assms
  by (auto simp: post_exec_def Let_def fetchall_def cursor_execute_def)

lemma handle_dbapi_exception_executed:
  "executed (cursor (handle_dbapi_exception ctx e)) =
     executed (cursor ctx) @ (if u_enable_identity_insert ctx then [identity_insert_off ctx] else [])"
  by (auto simp: handle_dbapi_exception_def split: prod.splits dest!: cursor_executeD)

lemma execute_after_pre_exec:
  assumes "pre_exec ctx = (ctx1, None)"
  shows "execute ctx =
           (case server (cursor ctx1) (executed (cursor ctx1)) (statement ctx1) of
              Failure e \<Rightarrow>
                (handle_dbapi_exception (ctx1\<lparr>cursor := fst (cursor_execute (cursor ctx1) (statement ctx1))\<rparr>) e,
                 Some e)
            | Rows rs n \<Rightarrow>
                post_exec (ctx1\<lparr>cursor := fst (cursor_execute (cursor ctx1) (statement ctx1))\<rparr>))"
  using assms
  by (simp add: execute_def cursor_execute_def split: response.splits)

text \<open>
  Claim C3. When the pre-execution step of a fresh context completes with identity-insert
  mode enabled, the statements sent are the enabling statement, the main statement and
  exactly one disabling statement, in this order, whether the main statement succeeds or
  fails; and when the main statement fails, its error is the one returned to the caller,
  whatever the server answers to the disabling statement.
\<close>

theorem identity_insert_paired:
  assumes "fresh ctx" and "pre_exec ctx = (ctx1, None)" and "u_enable_identity_insert ctx1"
  shows "executed (cursor (fst (execute ctx))) =
           executed (cursor ctx) @ [identity_insert_on ctx, statement ctx, identity_insert_off ctx]
       \<and> (\<forall>e. server (cursor ctx) (executed (cursor ctx) @ [identity_insert_on ctx]) (statement ctx)
                 = Failure e \<longrightarrow> snd (execute ctx) = Some e)"
proof -
  note p = pre_exec_result [OF assms(1,2)]
  from p(10) assms(3) have nl: "\<not> u_select_lastrowid ctx1" by simp
  from p(11) assms(3) have ex: "executed (cursor ctx1) = executed (cursor ctx) @ [identity_insert_on ctx]"
    by simp
  let ?ctx2 = "ctx1\<lparr>cursor := fst (cursor_execute (cursor ctx1) (statement ctx1))\<rparr>"
  have e2: "executed (cursor ?ctx2) = executed (cursor ctx) @ [identity_insert_on ctx, statement ctx]"
    using ex p(1) by simp
  show ?thesis
  proof (cases "server (cursor ctx1) (executed (cursor ctx1)) (statement ctx1)")
    case (Failure e)
    then have "execute ctx = (handle_dbapi_exception ?ctx2 e, Some e)"
      by (simp add: execute_after_pre_exec [OF assms(2)])
    with Failure e2 assms(3) ex p(1,2,4) show ?thesis
      by (simp add: handle_dbapi_exception_executed)
  next
    case (Rows rs n)
    then have "execute ctx = post_exec ?ctx2"
      by (simp add: execute_after_pre_exec [OF assms(2)])
    with Rows e2 assms(3) nl ex p(1,2,4) show ?thesis
      by (simp add: post_exec_executed)
  qed
qed

text \<open>
  Claim C7, as amended. After a completed pre-execution step and a main statement that
  succeeds, the last-id query follows the main statement exactly when the statement is
  an INSERT that is not compiled inline, not batched and without RETURNING, into a table
  whose identity column is not driven by a Sequence, and identity-insert mode was not
  enabled; it is then the only follow-up statement, and the first column of the first
  row of its result, read as an integer, is the generated key. Otherwise the only
  follow-up statement is the disabling one, when the mode was enabled.
\<close>

theorem lastrowid_fetch:
  assumes "fresh ctx" and "pre_exec ctx = (ctx1, None)"
    and "server (cursor ctx1) (executed (cursor ctx1)) (statement ctx) = Rows rs n"
  shows "executed (cursor (fst (execute ctx))) =
           executed (cursor ctx1) @ [statement ctx] @
             (if isinsert ctx \<and> \<not> inline (compiled ctx) \<and> insert_has_identity ctx
                 \<and> \<not> returning (compiled ctx) \<and> \<not> u_enable_identity_insert ctx1
                 \<and> \<not> executemany ctx
              then [lastrowid_query ctx]
              else if u_enable_identity_insert ctx1 then [identity_insert_off ctx] else [])
       \<and> (isinsert ctx \<and> \<not> inline (compiled ctx) \<and> insert_has_identity ctx
            \<and> \<not> returning (compiled ctx) \<and> \<not> u_enable_identity_insert ctx1 \<and> \<not> executemany ctx \<longrightarrow>
          (\<forall>k r others m.
             server (cursor ctx1) (executed (cursor ctx1) @ [statement ctx]) (lastrowid_query ctx)
               = Rows ((Number k # r) # others) m \<longrightarrow>
             snd (execute ctx) = None \<and> u_lastrowid (fst (execute ctx)) = Some k))"
proof -
  note p = pre_exec_result [OF assms(1,2)]
  let ?ctx2 = "ctx1\<lparr>cursor := fst (cursor_execute (cursor ctx1) (statement ctx1))\<rparr>"
  from assms(3) p(1) have ex: "execute ctx = post_exec ?ctx2"
    by (simp add: execute_after_pre_exec [OF assms(2)])
  have e2: "executed (cursor ?ctx2) = executed (cursor ctx1) @ [statement ctx]"
    using p(1) by simp
  have fl: "u_select_lastrowid ?ctx2 = u_select_lastrowid ctx1"
    "u_enable_identity_insert ?ctx2 = u_enable_identity_insert ctx1"
    "lastrowid_query ?ctx2 = lastrowid_query ctx" "identity_insert_off ?ctx2 = identity_insert_off ctx"
    "server (cursor ?ctx2) = server (cursor ctx1)"
    using p(2,3) by simp_all
  from p(10) have excl: "\<not> (u_enable_identity_insert ?ctx2 \<and> u_select_lastrowid ?ctx2)"
    by simp
  have a: "executed (cursor (fst (execute ctx))) =
           executed (cursor ctx1) @ [statement ctx] @
             (if u_select_lastrowid ctx1 then [lastrowid_query ctx]
              else if u_enable_identity_insert ctx1 then [identity_insert_off ctx] else [])"
    unfolding ex post_exec_executed [OF excl] e2 fl by simp
  have b: "\<forall>k r others m.
             u_select_lastrowid ctx1 \<and>
             server (cursor ctx1) (executed (cursor ctx1) @ [statement ctx]) (lastrowid_query ctx)
               = Rows ((Number k # r) # others) m \<longrightarrow>
             snd (execute ctx) = None \<and> u_lastrowid (fst (execute ctx)) = Some k"
  proof (intro allI impI)
    fix k r others m
    assume h: "u_select_lastrowid ctx1 \<and>
             server (cursor ctx1) (executed (cursor ctx1) @ [statement ctx]) (lastrowid_query ctx)
               = Rows ((Number k # r) # others) m"
    with p(10) have "u_select_lastrowid ?ctx2" "\<not> u_enable_identity_insert ?ctx2"
      "server (cursor ?ctx2) (executed (cursor ?ctx2)) (lastrowid_query ?ctx2) = Rows ((Number k # r) # others) m"
      unfolding e2 fl by simp_all
    from post_exec_lastrowid [OF this] show "snd (execute ctx) = None \<and> u_lastrowid (fst (execute ctx)) = Some k"
      unfolding ex .
  qed
  from a b p(12) show ?thesis by simp
qed

lemmas example_context_defs =
  insert_context_def table_t_def failing_server_def answering_server_def new_server_def
  pre_exec_def post_exec_def execute_def handle_dbapi_exception_def cursor_execute_def fetchall_def
  insert_has_identity_def identity_insert_on_def identity_insert_off_def lastrowid_query_def
  u_opt_encode_def fresh_def Let_def

text \<open>
  An INSERT that supplies \<^verbatim>\<open>id\<close>, on a server where both the INSERT and the cleanup fail.
\<close>

theorem identity_insert_paired_witness:
  "executed (cursor (fst (execute (insert_context failing_server [''id'', ''x''] False)))) =
     [''SET IDENTITY_INSERT t ON'', ''INSERT INTO t'', ''SET IDENTITY_INSERT t OFF'']
   \<and> snd (execute (insert_context failing_server [''id'', ''x''] False)) = Some (DBAPIError ''insert failed'')
   \<and> failing_server [''SET IDENTITY_INSERT t ON'', ''INSERT INTO t''] ''SET IDENTITY_INSERT t OFF''
       = Failure (DBAPIError ''cleanup failed'')"
proof -
  let ?ctx = "insert_context failing_server [''id'', ''x''] False"
  have f: "fresh ?ctx"
    by (simp add: fresh_def insert_context_def)
  have "snd (pre_exec ?ctx) = None"
    by (simp add: example_context_defs)
  then have p: "pre_exec ?ctx = (fst (pre_exec ?ctx), None)"
    by (metis prod.collapse)
  have e: "u_enable_identity_insert (fst (pre_exec ?ctx))"
    by (simp add: example_context_defs)
  have s: "executed (cursor ?ctx) = []" "statement ?ctx = ''INSERT INTO t''"
    "identity_insert_on ?ctx = ''SET IDENTITY_INSERT t ON''"
    "identity_insert_off ?ctx = ''SET IDENTITY_INSERT t OFF''"
    "server (cursor ?ctx) = failing_server"
    by (simp_all add: insert_context_def table_t_def identity_insert_on_def identity_insert_off_def
        u_opt_encode_def)
  have m: "failing_server [''SET IDENTITY_INSERT t ON''] ''INSERT INTO t'' = Failure (DBAPIError ''insert failed'')"
    "failing_server [''SET IDENTITY_INSERT t ON'', ''INSERT INTO t''] ''SET IDENTITY_INSERT t OFF''
       = Failure (DBAPIError ''cleanup failed'')"
    by (simp_all add: failing_server_def)
  from identity_insert_paired [OF f p e] m show ?thesis
    unfolding s by simp
qed

text \<open>
  An INSERT that leaves \<^verbatim>\<open>id\<close> to the server, and one that supplies it.
\<close>

theorem lastrowid_fetch_witness:
  "executed (cursor (fst (execute (insert_context answering_server [''x''] False)))) =
     [''INSERT INTO t'', ''SELECT scope_identity() AS lastrowid'']
   \<and> snd (execute (insert_context answering_server [''x''] False)) = None
   \<and> u_lastrowid (fst (execute (insert_context answering_server [''x''] False))) = Some 42
   \<and> executed (cursor (fst (execute (insert_context answering_server [''id'', ''x''] False)))) =
     [''SET IDENTITY_INSERT t ON'', ''INSERT INTO t'', ''SET IDENTITY_INSERT t OFF'']"
proof -
  let ?ctx = "insert_context answering_server [''x''] False"
  let ?ctx' = "insert_context answering_server [''id'', ''x''] False"
  have f: "fresh ?ctx" "fresh ?ctx'"
    by (simp_all add: fresh_def insert_context_def)
  have "snd (pre_exec ?ctx) = None" "snd (pre_exec ?ctx') = None"
    by (simp_all add: example_context_defs)
  then have p: "pre_exec ?ctx = (fst (pre_exec ?ctx), None)" "pre_exec ?ctx' = (fst (pre_exec ?ctx'), None)"
    by (metis prod.collapse)+
  have e: "\<not> u_enable_identity_insert (fst (pre_exec ?ctx))" "u_enable_identity_insert (fst (pre_exec ?ctx'))"
    "executed (cursor (fst (pre_exec ?ctx))) = []"
    "executed (cursor (fst (pre_exec ?ctx'))) = [''SET IDENTITY_INSERT t ON'']"
    "server (cursor (fst (pre_exec ?ctx))) = answering_server"
    "server (cursor (fst (pre_exec ?ctx'))) = answering_server"
    by (simp_all add: example_context_defs)
  have s: "statement ?ctx = ''INSERT INTO t''" "statement ?ctx' = ''INSERT INTO t''"
    "lastrowid_query ?ctx = ''SELECT scope_identity() AS lastrowid''"
    "identity_insert_off ?ctx' = ''SET IDENTITY_INSERT t OFF''"
    "isinsert ?ctx" "\<not> inline (compiled ?ctx)" "insert_has_identity ?ctx" "\<not> returning (compiled ?ctx)"
    "\<not> executemany ?ctx"
    by (simp_all add: insert_context_def table_t_def identity_insert_off_def lastrowid_query_def
        u_opt_encode_def new_server_def insert_has_identity_def)
  have m: "answering_server [] ''INSERT INTO t'' = Rows [] 1"
    "answering_server [''SET IDENTITY_INSERT t ON''] ''INSERT INTO t'' = Rows [] 1"
    "answering_server [''INSERT INTO t''] ''SELECT scope_identity() AS lastrowid'' = Rows [[Number 42]] 1"
    by (simp_all add: answering_server_def)
  from lastrowid_fetch [OF f(1) p(1), unfolded e s, OF m(1)]
    lastrowid_fetch [OF f(2) p(2), unfolded e s, OF m(2)] e s m
  show ?thesis by simp
qed

text \<open>
  Claim C7 as stated fails: a single-row INSERT compiled inline, without RETURNING and
  without identity-insert mode, into a table whose identity column has no Sequence, is
  followed by no last-id query.
\<close>

theorem inline_insert_no_lastrowid_fetch:
  "isinsert (insert_context answering_server [''x''] True)
   \<and> \<not> executemany (insert_context answering_server [''x''] True)
   \<and> insert_has_identity (insert_context answering_server [''x''] True)
   \<and> \<not> returning (compiled (insert_context answering_server [''x''] True))
   \<and> \<not> u_enable_identity_insert (fst (execute (insert_context answering_server [''x''] True)))
   \<and> snd (execute (insert_context answering_server [''x''] True)) = None
   \<and> executed (cursor (fst (execute (insert_context answering_server [''x''] True)))) = [''INSERT INTO t'']
   \<and> u_lastrowid (fst (execute (insert_context answering_server [''x''] True))) = None"
  by (simp add: example_context_defs)

end
